theory Spec2Isabelle
  imports Complex_Main "HOL-Library.Word"
begin

section \<open>Types shared by the two headers\<close>

text \<open>
  The C++ \<^verbatim>\<open>int\<close> is a 32-bit two's complement word, read by \<open>sint\<close>.
  A \<^verbatim>\<open>double\<close> is idealised as a real number; the only arithmetic the headers
  themselves perform on doubles is the conversion of an \<^verbatim>\<open>int\<close>, which is exact.
\<close>

type_synonym int32 = "32 word"

text \<open>
  \<^verbatim>\<open>Acts::Vector3D\<close> with its three coefficients, and the coefficient indices
  \<^verbatim>\<open>eX, eY, eZ\<close> that \<^verbatim>\<open>operator[]\<close> takes (their declarations are in
  headers the two files include; \<^verbatim>\<open>getBField\<close> documents \<^verbatim>\<open>[eZ]\<close> as the
  z-value).
\<close>

record Vector3D =
  vx :: real
  vy :: real
  vz :: real

datatype AxisIndex = eX | eY | eZ

fun coeff :: "Vector3D \<Rightarrow> AxisIndex \<Rightarrow> real" where
  "coeff v eX = vx v"
| "coeff v eY = vy v"
| "coeff v eZ = vz v"

text \<open>
  The template parameter \<^verbatim>\<open>propagator_options_t\<close>: the constructor of
  \<^verbatim>\<open>Config\<close> needs nothing of it but an assignable member \<^verbatim>\<open>direction\<close>
  that takes the value \<^verbatim>\<open>backward\<close>. The record is extensible, so
  \<open>'o PropagatorOptions_scheme\<close> is any options type with that member.
\<close>

datatype NavigationDirection = backward | forward

record PropagatorOptions =
  direction :: NavigationDirection

section \<open>ImpactPoint3dEstimator.hpp\<close>

subsection \<open>The configuration struct\<close>

text \<open>
  \<^verbatim>\<open>struct Config\<close>: the field \<open>'b\<close> (\<^verbatim>\<open>BField_t\<close>), the shared pointer to the
  propagator \<open>'p\<close>, the propagator options, and the two members with default member
  initialisers.
\<close>

record ('b, 'p, 'o) Config =
  bField :: 'b
  propagator :: 'p
  pOptions :: "'o PropagatorOptions_scheme"
  maxIterations :: int32
  precision :: real

text \<open>
  The constructor: the member initialiser list stores the three arguments, the default
  member initialisers give \<^verbatim>\<open>maxIterations = 20\<close> and \<^verbatim>\<open>precision = 1.e-10\<close>,
  and the body overwrites the direction when \<^verbatim>\<open>doBackwardPropagation\<close> is set.
\<close>

definition Config ::
  "'b \<Rightarrow> 'p \<Rightarrow> 'o PropagatorOptions_scheme \<Rightarrow> bool \<Rightarrow> ('b, 'p, 'o) Config" where
  "Config bIn prop propOptions doBackwardPropagation =
     (let this = \<lparr> bField = bIn, propagator = prop, pOptions = propOptions,
                    maxIterations = 20, precision = 1 / 10 ^ 10 \<rparr>
      in if doBackwardPropagation
         then this\<lparr> pOptions := (pOptions this)\<lparr> direction := backward \<rparr> \<rparr>
         else this)"

text \<open>
  A construction that leaves the fourth argument out: the declaration's default
  argument \<^verbatim>\<open>doBackwardPropagation = true\<close> is what the constructor receives.
\<close>

definition Config_defaulted ::
  "'b \<Rightarrow> 'p \<Rightarrow> 'o PropagatorOptions_scheme \<Rightarrow> ('b, 'p, 'o) Config" where
  "Config_defaulted bIn prop propOptions = Config bIn prop propOptions True"

subsection \<open>The estimator and its field access\<close>

text \<open>
  The class has one data member, \<^verbatim>\<open>const Config m_cfg\<close>, copied from the
  constructor's argument.
\<close>

record ('b, 'p, 'o) ImpactPoint3dEstimator =
  m_cfg :: "('b, 'p, 'o) Config"

definition ImpactPoint3dEstimator ::
  "('b, 'p, 'o) Config \<Rightarrow> ('b, 'p, 'o) ImpactPoint3dEstimator" where
  "ImpactPoint3dEstimator cfg = \<lparr> m_cfg = cfg \<rparr>"

text \<open>
  The overload of \<^verbatim>\<open>getBField\<close> enabled when \<^verbatim>\<open>BField_t\<close> is \<^verbatim>\<open>int\<close>: the
  position is ignored and the stored \<^verbatim>\<open>int\<close> is returned, converted to
  \<^verbatim>\<open>double\<close>. The overload exists at the field type \<open>int32\<close> only.
\<close>

definition getBField_int ::
  "(int32, 'p, 'o) ImpactPoint3dEstimator \<Rightarrow> Vector3D \<Rightarrow> real" where
  "getBField_int this linPointPos = real_of_int (sint (bField (m_cfg this)))"

text \<open>
  The overload enabled when \<^verbatim>\<open>BField_t\<close> is not \<^verbatim>\<open>int\<close>. The field class is a
  template parameter; its member function \<^verbatim>\<open>getField\<close> is the parameter
  \<open>getField\<close>.
\<close>

definition getBField_field ::
  "('b \<Rightarrow> Vector3D \<Rightarrow> Vector3D) \<Rightarrow> ('b, 'p, 'o) ImpactPoint3dEstimator \<Rightarrow> Vector3D \<Rightarrow> real" where
  "getBField_field getField this linPointPos =
     coeff (getField (bField (m_cfg this)) linPointPos) eZ"

section \<open>Operations whose bodies are not among the sources\<close>

text \<open>
  Modelled from the spec: the error codes a \<^verbatim>\<open>Result\<close> carries are declared in
  a header that is not among the sources; the specification names three failures.
\<close>

datatype Error = NumericalFailure | PropagationFailure | InvalidInput

text \<open>
  Modelled from the spec: the body of \<^verbatim>\<open>performNewtonApproximation\<close> is in
  \<^verbatim>\<open>ImpactPoint3dEstimator.ipp\<close>, which is not among the sources; the header gives
  its signature, and \<^verbatim>\<open>Config\<close> gives \<^verbatim>\<open>maxIterations\<close> and
  \<^verbatim>\<open>precision\<close>. The specification: each step produces \<open>phi_{k+1}\<close> from
  \<open>phi_k\<close>; the iteration stops when \<open>|phi_{k+1} - phi_k| < precision\<close> or after
  \<^verbatim>\<open>maxIterations\<close> steps, and exceeding the cap without reaching the precision is
  a \<^verbatim>\<open>NumericalFailure\<close>. The update derived from the helix geometry is the
  parameter \<open>step\<close>. The loop counts the steps it has made in \<open>nIter\<close>.
\<close>

fun newtonIterate ::
  "(real \<Rightarrow> real) \<Rightarrow> real \<Rightarrow> nat \<Rightarrow> real \<Rightarrow> nat \<Rightarrow> (Error + real) \<times> nat" where
  "newtonIterate step eps 0 phi nIter = (Inl NumericalFailure, nIter)"
| "newtonIterate step eps (Suc left) phi nIter =
     (let phiNew = step phi
      in if \<bar>phiNew - phi\<bar> < eps then (Inr phiNew, Suc nIter)
         else newtonIterate step eps left phiNew (Suc nIter))"

definition performNewtonApproximation ::
  "(Vector3D \<Rightarrow> Vector3D \<Rightarrow> real \<Rightarrow> real \<Rightarrow> real \<Rightarrow> real) \<Rightarrow>
   ('b, 'p, 'o) ImpactPoint3dEstimator \<Rightarrow>
   Vector3D \<Rightarrow> Vector3D \<Rightarrow> real \<Rightarrow> real \<Rightarrow> real \<Rightarrow> Error + real" where
  "performNewtonApproximation newtonUpdate this trkPos vtxPos phi theta r =
     fst (newtonIterate (\<lambda>p. newtonUpdate trkPos vtxPos p theta r)
            (precision (m_cfg this)) (nat (sint (maxIterations (m_cfg this)))) phi 0)"

text \<open>The number of steps the same call has made when it returns.\<close>

definition newtonSteps ::
  "(Vector3D \<Rightarrow> Vector3D \<Rightarrow> real \<Rightarrow> real \<Rightarrow> real \<Rightarrow> real) \<Rightarrow>
   ('b, 'p, 'o) ImpactPoint3dEstimator \<Rightarrow>
   Vector3D \<Rightarrow> Vector3D \<Rightarrow> real \<Rightarrow> real \<Rightarrow> real \<Rightarrow> nat" where
  "newtonSteps newtonUpdate this trkPos vtxPos phi theta r =
     snd (newtonIterate (\<lambda>p. newtonUpdate trkPos vtxPos p theta r)
            (precision (m_cfg this)) (nat (sint (maxIterations (m_cfg this)))) phi 0)"

text \<open>
  Modelled from the spec: the body of \<^verbatim>\<open>addHits\<close> is in
  \<^verbatim>\<open>OneHitSpacePointBuilder.cpp\<close>, which is not among the sources; the header gives
  the signature (\<^verbatim>\<open>void\<close>, the vector by reference) and the shape
  \<^verbatim>\<open>hits[Surfaces][Hits on a surface]\<close>. The specification: the groups are walked
  in order, every cluster maps to one space point of its own, and each is appended to
  the caller's vector. How a space point is derived from a cluster is the parameter
  \<open>derive\<close>. The function is \<^verbatim>\<open>void\<close>: all it yields is the vector.
\<close>

fun addHits_group :: "('c \<Rightarrow> 'sp) \<Rightarrow> 'sp list \<Rightarrow> 'c list \<Rightarrow> 'sp list" where
  "addHits_group derive spacePoints [] = spacePoints"
| "addHits_group derive spacePoints (hit # cluster) =
     addHits_group derive (spacePoints @ [derive hit]) cluster"

fun addHits :: "('c \<Rightarrow> 'sp) \<Rightarrow> 'sp list \<Rightarrow> 'c list list \<Rightarrow> 'sp list" where
  "addHits derive spacePoints [] = spacePoints"
| "addHits derive spacePoints (cluster # hits) =
     addHits derive (addHits_group derive spacePoints cluster) hits"

section \<open>The configuration after construction\<close>

text \<open>C9: a configuration constructed without the fourth argument has its propagation
  direction set to backward, since the argument defaults to true.\<close>

theorem Config_defaulted_backward:
  "Config_defaulted bIn prop propOptions = Config bIn prop propOptions True
   \<and> direction (pOptions (Config_defaulted bIn prop propOptions)) = backward"
  by (simp add: Config_defaulted_def Config_def)

text \<open>C10: with a field model configured, \<^verbatim>\<open>getBField\<close> is the z-component of the
  field vector at the position; whatever the x- and y-components of the field are, they
  do not enter the value.\<close>

theorem getBField_field_z_component:
  "getBField_field getField this pos = vz (getField (bField (m_cfg this)) pos)
   \<and> getBField_field (\<lambda>b p. \<lparr> vx = fx b p, vy = fy b p, vz = fz b p \<rparr>) this pos
       = fz (bField (m_cfg this)) pos"
  by (simp add: getBField_field_def)

text \<open>
  What the constructors store. The constructor of \<^verbatim>\<open>Config\<close> keeps the field and
  the propagator it is given; the options are the ones passed in, with the direction
  overwritten when backward propagation is requested and untouched when it is not. The
  constructor of the estimator copies the configuration as it is.
\<close>

lemma Config_stores_arguments:
  "bField (Config bIn prop propOptions doBackwardPropagation) = bIn
   \<and> propagator (Config bIn prop propOptions doBackwardPropagation) = prop
   \<and> pOptions (Config bIn prop propOptions True) = propOptions\<lparr> direction := backward \<rparr>
   \<and> pOptions (Config bIn prop propOptions False) = propOptions
   \<and> m_cfg (ImpactPoint3dEstimator cfg) = cfg"
  by (simp add: Config_def ImpactPoint3dEstimator_def Let_def)

section \<open>The field value without a field model\<close>

text \<open>C1: with \<^verbatim>\<open>BField_t == int\<close> the value \<^verbatim>\<open>getBField\<close> hands to the solver is
  the configured \<^verbatim>\<open>int\<close>, not zero: for a configuration built with the field
  argument 1 it is 1.\<close>

theorem getBField_int_configured_one:
  "getBField_int
     (ImpactPoint3dEstimator (Config (1 :: int32) () \<lparr> direction = forward \<rparr> True))
     \<lparr> vx = 0, vy = 0, vz = 0 \<rparr> = 1"
  by (simp add: getBField_int_def ImpactPoint3dEstimator_def Config_def)

section \<open>The Newton iteration\<close>

lemma newtonIterate_char:
  "newtonIterate step eps cap phi c =
     (if \<exists>k<cap. \<bar>(step ^^ Suc k) phi - (step ^^ k) phi\<bar> < eps
      then (Inr ((step ^^ Suc (LEAST k. \<bar>(step ^^ Suc k) phi - (step ^^ k) phi\<bar> < eps)) phi),
            c + Suc (LEAST k. \<bar>(step ^^ Suc k) phi - (step ^^ k) phi\<bar> < eps))
      else (Inl NumericalFailure, c + cap))"
proof (induction cap arbitrary: phi c)
  case 0
  show ?case by simp
next
  case (Suc cap)
  let ?P = "\<lambda>k. \<bar>(step ^^ Suc k) phi - (step ^^ k) phi\<bar> < eps"
  let ?Q = "\<lambda>k. \<bar>(step ^^ Suc k) (step phi) - (step ^^ k) (step phi)\<bar> < eps"
  have shift: "?Q k = ?P (Suc k)" for k
    by (simp only: funpow_Suc_right o_apply)
  show ?case
  proof (cases "?P 0")
    case True
    then have "(LEAST k. ?P k) = 0" by (intro Least_eq_0)
    moreover from True have "\<exists>k<Suc cap. ?P k" by blast
    ultimately show ?thesis using True by simp
  next
    case False
    have ex: "(\<exists>k<Suc cap. ?P k) = (\<exists>k<cap. ?Q k)"
    proof
      assume "\<exists>k<Suc cap. ?P k"
      then obtain k where k: "k < Suc cap" "?P k" by blast
      with False obtain j where "k = Suc j" by (cases k) auto
      with k show "\<exists>k<cap. ?Q k" unfolding shift by auto
    next
      assume "\<exists>k<cap. ?Q k"
      then obtain k where "k < cap" "?P (Suc k)" unfolding shift by blast
      then show "\<exists>k<Suc cap. ?P k" by (intro exI [of _ "Suc k"]) simp
    qed
    have least: "(LEAST k. ?P k) = Suc (LEAST k. ?Q k)" if "\<exists>k<cap. ?Q k"
    proof -
      from that obtain k where "?P (Suc k)" unfolding shift by blast
      from Least_Suc [of ?P, OF this False] show ?thesis unfolding shift .
    qed
    have "newtonIterate step eps (Suc cap) phi c
            = newtonIterate step eps cap (step phi) (Suc c)"
      using False by simp
    also have "\<dots> = (if \<exists>k<cap. ?Q k
      then (Inr ((step ^^ Suc (LEAST k. ?Q k)) (step phi)), Suc c + Suc (LEAST k. ?Q k))
      else (Inl NumericalFailure, Suc c + cap))"
      by (rule Suc.IH)
    also have "\<dots> = (if \<exists>k<Suc cap. ?P k
      then (Inr ((step ^^ Suc (LEAST k. ?P k)) phi), c + Suc (LEAST k. ?P k))
      else (Inl NumericalFailure, c + Suc cap))"
    proof (cases "\<exists>k<cap. ?Q k")
      case True
      with ex have "\<exists>k<Suc cap. ?P k" by simp
      moreover have "(step ^^ Suc (LEAST k. ?Q k)) (step phi)
                       = (step ^^ Suc (LEAST k. ?P k)) phi"
        unfolding least [OF True] by (simp only: funpow_Suc_right o_apply)
      ultimately show ?thesis using True least [OF True] by simp
    next
      case False
      with ex have "\<not> (\<exists>k<Suc cap. ?P k)" by simp
      then show ?thesis using False by simp
    qed
    finally show ?thesis .
  qed
qed

lemma least_below_cap:
  assumes "\<exists>k<cap. P (k::nat)"
  shows "(LEAST k. P k) < cap"
proof -
  from assms obtain k where "k < cap" "P k" by blast
  then show ?thesis using Least_le [of P k] by simp
qed

text \<open>C2: the configuration's defaults are a cap of 20 steps and a precision of
  1e-10. The iteration makes at most \<^verbatim>\<open>maxIterations\<close> steps. If one of the first
  \<^verbatim>\<open>maxIterations\<close> updates has a magnitude below the precision, the iteration stops
  at the first such update and returns the angle it produced; if none has, the result
  is \<^verbatim>\<open>NumericalFailure\<close> and no value.\<close>

theorem performNewtonApproximation_stops:
  "maxIterations (Config bIn prop propOptions doBackwardPropagation) = 20
   \<and> precision (Config bIn prop propOptions doBackwardPropagation) = 1 / 10 ^ 10
   \<and> (let step = (\<lambda>p. newtonUpdate trkPos vtxPos p theta r);
          cap = nat (sint (maxIterations (m_cfg this)));
          below = (\<lambda>k. \<bar>(step ^^ Suc k) phi - (step ^^ k) phi\<bar> < precision (m_cfg this));
          first = (LEAST k. below k)
      in newtonSteps newtonUpdate this trkPos vtxPos phi theta r \<le> cap
         \<and> newtonSteps newtonUpdate this trkPos vtxPos phi theta r
             = (if \<exists>k<cap. below k then Suc first else cap)
         \<and> performNewtonApproximation newtonUpdate this trkPos vtxPos phi theta r
             = (if \<exists>k<cap. below k then Inr ((step ^^ Suc first) phi)
                else Inl NumericalFailure))"
proof -
  let ?step = "\<lambda>p. newtonUpdate trkPos vtxPos p theta r"
  let ?cap = "nat (sint (maxIterations (m_cfg this)))"
  let ?below = "\<lambda>k. \<bar>(?step ^^ Suc k) phi - (?step ^^ k) phi\<bar> < precision (m_cfg this)"
  have defaults: "maxIterations (Config bIn prop propOptions doBackwardPropagation) = 20"
    "precision (Config bIn prop propOptions doBackwardPropagation) = 1 / 10 ^ 10"
    by (simp_all add: Config_def Let_def)
  have bound: "Suc (LEAST k. ?below k) \<le> ?cap" if "\<exists>k<?cap. ?below k"
    using least_below_cap [of ?cap ?below, OF that] by simp
  have loop: "newtonIterate ?step (precision (m_cfg this)) ?cap phi 0 =
     (if \<exists>k<?cap. ?below k
      then (Inr ((?step ^^ Suc (LEAST k. ?below k)) phi), Suc (LEAST k. ?below k))
      else (Inl NumericalFailure, ?cap))"
    using newtonIterate_char [of ?step "precision (m_cfg this)" ?cap phi 0] by simp
  show ?thesis
    unfolding Let_def performNewtonApproximation_def newtonSteps_def loop
    using defaults bound by simp
qed

text \<open>Two runs under the default configuration. An update that jumps to 0 and stays
  there is below the precision at its second step. Halving the angle from 1 needs 34
  steps to get below 1e-10, so the cap of 20 is exceeded.\<close>

lemma performNewtonApproximation_converging_run:
  "performNewtonApproximation (\<lambda>trkPos vtxPos phi theta r. 0)
     (ImpactPoint3dEstimator (Config (0 :: int32) () \<lparr> direction = forward \<rparr> True))
     \<lparr> vx = 0, vy = 0, vz = 0 \<rparr> \<lparr> vx = 0, vy = 3, vz = 4 \<rparr> 1 0 0 = Inr 0
   \<and> newtonSteps (\<lambda>trkPos vtxPos phi theta r. 0)
     (ImpactPoint3dEstimator (Config (0 :: int32) () \<lparr> direction = forward \<rparr> True))
     \<lparr> vx = 0, vy = 0, vz = 0 \<rparr> \<lparr> vx = 0, vy = 3, vz = 4 \<rparr> 1 0 0 = 2"
  by (simp add: performNewtonApproximation_def newtonSteps_def ImpactPoint3dEstimator_def
        Config_def eval_nat_numeral)

lemma performNewtonApproximation_capped_run:
  "performNewtonApproximation (\<lambda>trkPos vtxPos phi theta r. phi / 2)
     (ImpactPoint3dEstimator (Config (0 :: int32) () \<lparr> direction = forward \<rparr> True))
     \<lparr> vx = 0, vy = 0, vz = 0 \<rparr> \<lparr> vx = 0, vy = 3, vz = 4 \<rparr> 1 0 0 = Inl NumericalFailure
   \<and> newtonSteps (\<lambda>trkPos vtxPos phi theta r. phi / 2)
     (ImpactPoint3dEstimator (Config (0 :: int32) () \<lparr> direction = forward \<rparr> True))
     \<lparr> vx = 0, vy = 0, vz = 0 \<rparr> \<lparr> vx = 0, vy = 3, vz = 4 \<rparr> 1 0 0 = 20"
  by (simp add: performNewtonApproximation_def newtonSteps_def ImpactPoint3dEstimator_def
        Config_def eval_nat_numeral)

section \<open>Appending space points\<close>

lemma addHits_group_append:
  "addHits_group derive spacePoints cluster = spacePoints @ map derive cluster"
  by (induction cluster arbitrary: spacePoints) simp_all

lemma addHits_append:
  "addHits derive spacePoints hits = spacePoints @ concat (map (map derive) hits)"
  by (induction hits arbitrary: spacePoints) (simp_all add: addHits_group_append)

text \<open>C7: what \<^verbatim>\<open>addHits\<close> does to the caller's vector is to append: the vector
  after the call is the vector before it followed by the new entries, one per cluster,
  so the entries that were there are still there, unmodified and at their positions.
  The call yields nothing but the vector.\<close>

theorem addHits_appends_only:
  "addHits derive spacePoints hits = spacePoints @ concat (map (map derive) hits)
   \<and> take (length spacePoints) (addHits derive spacePoints hits) = spacePoints
   \<and> length (addHits derive spacePoints hits)
       = length spacePoints + sum_list (map length hits)"
  by (simp add: addHits_append length_concat comp_def)

end
